theory Spec2Isabelle
  imports Main "HOL-Library.Word"
begin

unbundle bit_operations_syntax

section \<open>Machine model\<close>

text \<open>
  \<^verbatim>\<open>malloc_count.c\<close> is written for an LP64 platform: its layout comment says that each
  header field "has 8 bytes (size_t)". \<^verbatim>\<open>size_t\<close>, \<^verbatim>\<open>long long\<close> and pointers are 64-bit
  words; \<open>+\<close>, \<open>-\<close> and \<open>*\<close> wrap around. Pointer comparison is the unsigned order of
  the addresses; the \<^verbatim>\<open>long long\<close> counters are compared through \<open>sint\<close>.
\<close>

type_synonym size_t = "64 word"
type_synonym ptr = "64 word"
type_synonym llong = "64 word"
type_synonym c_int = "32 word"
type_synonym byte = "8 word"
type_synonym memory = "ptr \<Rightarrow> byte"

text \<open>Byte \<open>i\<close> of a \<^verbatim>\<open>size_t\<close>, and eight bytes joined, least significant first.\<close>

definition byte_of :: "size_t \<Rightarrow> nat \<Rightarrow> byte" where
  "byte_of v i = ucast (drop_bit (8 * i) v)"

definition join8 ::
  "byte \<Rightarrow> byte \<Rightarrow> byte \<Rightarrow> byte \<Rightarrow> byte \<Rightarrow> byte \<Rightarrow> byte \<Rightarrow> byte \<Rightarrow> size_t" where
  "join8 b0 b1 b2 b3 b4 b5 b6 b7 =
     ucast b0 OR push_bit 8 (ucast b1) OR push_bit 16 (ucast b2) OR push_bit 24 (ucast b3)
     OR push_bit 32 (ucast b4) OR push_bit 40 (ucast b5) OR push_bit 48 (ucast b6)
     OR push_bit 56 (ucast b7)"

text \<open>\<^verbatim>\<open>*(size_t*)a\<close> as a read and as a write of the eight bytes from address \<open>a\<close>.\<close>

definition load64 :: "memory \<Rightarrow> ptr \<Rightarrow> size_t" where
  "load64 m a =
     join8 (m a) (m (a + 1)) (m (a + 2)) (m (a + 3)) (m (a + 4)) (m (a + 5)) (m (a + 6)) (m (a + 7))"

definition store64 :: "memory \<Rightarrow> ptr \<Rightarrow> size_t \<Rightarrow> memory" where
  "store64 m a v = (\<lambda>x. if x - a < 8 then byte_of v (unat (x - a)) else m x)"

text \<open>\<^verbatim>\<open>memset(s, c, n)\<close> and \<^verbatim>\<open>memcpy(dst, src, n)\<close>: the \<open>n\<close> bytes from the start address.\<close>

definition memset :: "memory \<Rightarrow> ptr \<Rightarrow> byte \<Rightarrow> size_t \<Rightarrow> memory" where
  "memset m s c n = (\<lambda>x. if x - s < n then c else m x)"

definition memcpy :: "memory \<Rightarrow> ptr \<Rightarrow> ptr \<Rightarrow> size_t \<Rightarrow> memory" where
  "memcpy m dst src n = (\<lambda>x. if x - dst < n then m (src + (x - dst)) else m x)"

section \<open>Constants of \<^verbatim>\<open>malloc_count.c\<close>\<close>

definition alignment :: size_t where
  "alignment = 32"

definition sentinel :: size_t where
  "sentinel = 0xDEADC0DE"

definition INIT_HEAP_SIZE :: size_t where
  "INIT_HEAP_SIZE = 1024 * 1024"

text \<open>
  \<^verbatim>\<open>log_operations\<close> and \<^verbatim>\<open>log_operations_init_heap\<close> are the constant 0 and
  \<^verbatim>\<open>THREAD_SAFE_GCC_INTRINSICS\<close> is 0: the logging branches are dead code and the counters
  are updated by the plain (\<^verbatim>\<open>#else\<close>) statements. Neither is modelled further.
\<close>

section \<open>Observable effects and program state\<close>

text \<open>The lines written to \<^verbatim>\<open>stderr\<close>, by the place that writes them.\<close>

datatype diag =
    Init_heap_full
  | Aligned_alloc_in_init_heap
  | Free_without_real_free ptr
  | Free_no_sentinel ptr
  | Realloc_no_sentinel ptr
  | Resolve_error
  | Status llong llong
  | Exiting llong llong llong

text \<open>
  What the wrapper does to its surroundings, in order: the calls through the four function
  pointers obtained from \<^verbatim>\<open>dlsym\<close>, the call of the registered callback, and diagnostics.
\<close>

datatype event =
    Real_malloc size_t
  | Real_aligned_alloc size_t size_t
  | Real_free ptr
  | Real_realloc ptr size_t
  | Callback llong
  | Stderr diag

text \<open>
  How a call ends when it does not return: \<^verbatim>\<open>exit(EXIT_FAILURE)\<close> after the given
  diagnostic, or undefined behaviour of C that the source does not guard against.
  \<open>Null_deref\<close> is a store through a null pointer (the one with which the real allocator
  reports failure, or a null \<^verbatim>\<open>memptr\<close>) or a call through a function pointer that is still
  \<^verbatim>\<open>NULL\<close>; \<open>Overrun\<close> is a \<^verbatim>\<open>memset\<close> that runs past the end of the block it fills.
\<close>

datatype error = Exit_failure diag | Null_deref | Overrun

text \<open>
  The file's static variables. A function pointer is modelled by whether it is non-null;
  \<open>init_heap\<close> is the address of the static array \<^verbatim>\<open>init_heap[INIT_HEAP_SIZE]\<close>;
  \<open>mem\<close> is the process memory and \<open>trace\<close> the effects so far.
\<close>

record state =
  real_malloc :: bool
  real_aligned_alloc :: bool
  real_free :: bool
  real_realloc :: bool
  init_heap :: ptr
  init_heap_use :: size_t
  peak :: llong
  curr :: llong
  total :: llong
  num_allocs :: llong
  callback :: bool
  mem :: memory
  trace :: "event list"

definition emit :: "event \<Rightarrow> state \<Rightarrow> state" where
  "emit e st = st\<lparr>trace := trace st @ [e]\<rparr>"

section \<open>Run-time memory allocation statistics\<close>

text \<open>
  \<^verbatim>\<open>if ((curr += inc) > peak) peak = curr; total += inc;
  if (callback) callback(callback_cookie, curr); ++num_allocs;\<close>
\<close>

definition inc_count :: "size_t \<Rightarrow> state \<Rightarrow> state" where
  "inc_count inc st =
     (let st1 = st\<lparr>curr := curr st + inc\<rparr>;
          st2 = (if sint (peak st1) < sint (curr st1) then st1\<lparr>peak := curr st1\<rparr> else st1);
          st3 = st2\<lparr>total := total st2 + inc\<rparr>;
          st4 = (if callback st3 then emit (Callback (curr st3)) st3 else st3)
      in st4\<lparr>num_allocs := num_allocs st4 + 1\<rparr>)"

text \<open>\<^verbatim>\<open>curr -= dec; if (callback) callback(callback_cookie, curr);\<close>\<close>

definition dec_count :: "size_t \<Rightarrow> state \<Rightarrow> state" where
  "dec_count dec st =
     (let st1 = st\<lparr>curr := curr st - dec\<rparr>
      in if callback st1 then emit (Callback (curr st1)) st1 else st1)"

definition malloc_count_current :: "state \<Rightarrow> size_t" where
  "malloc_count_current st = curr st"

definition malloc_count_peak :: "state \<Rightarrow> size_t" where
  "malloc_count_peak st = peak st"

definition malloc_count_reset_peak :: "state \<Rightarrow> state" where
  "malloc_count_reset_peak st = st\<lparr>peak := curr st\<rparr>"

definition malloc_count_num_allocs :: "state \<Rightarrow> size_t" where
  "malloc_count_num_allocs st = num_allocs st"

definition malloc_count_print_status :: "state \<Rightarrow> state" where
  "malloc_count_print_status st = emit (Stderr (Status (curr st) (peak st))) st"

definition malloc_count_set_callback :: "bool \<Rightarrow> state \<Rightarrow> state" where
  "malloc_count_set_callback cb st = st\<lparr>callback := cb\<rparr>"

section \<open>The exported symbols that overlay the libc functions\<close>

text \<open>
  "prepend allocation size and check sentinel": the three stores
  \<^verbatim>\<open>*(size_t*)ret = size; *(size_t*)((char*)ret + sizeof(size_t)) = extra;
  *(size_t*)((char*)ret + alignment - sizeof(size_t)) = sentinel;\<close>
  that \<^verbatim>\<open>malloc\<close> (twice) and \<^verbatim>\<open>aligned_alloc\<close> repeat.
\<close>

definition prepend :: "memory \<Rightarrow> ptr \<Rightarrow> size_t \<Rightarrow> size_t \<Rightarrow> memory" where
  "prepend m ret sz extra =
     store64 (store64 (store64 m ret sz) (ret + 8) extra) (ret + alignment - 8) sentinel"

text \<open>
  The test \<^verbatim>\<open>(char*)ptr >= init_heap && (char*)ptr <= init_heap + init_heap_use\<close> of
  \<^verbatim>\<open>free\<close> and \<^verbatim>\<open>realloc\<close>.
\<close>

definition in_init_heap :: "state \<Rightarrow> ptr \<Rightarrow> bool" where
  "in_init_heap st p \<longleftrightarrow> init_heap st \<le> p \<and> p \<le> init_heap st + init_heap_use st"

text \<open>
  \<^verbatim>\<open>malloc(size)\<close>. The argument \<open>r\<close> is the pointer that the real \<^verbatim>\<open>malloc\<close> returns
  if it is called (the real allocator is outside the program).
\<close>

definition malloc :: "state \<Rightarrow> ptr \<Rightarrow> size_t \<Rightarrow> error + ptr \<times> state" where
  "malloc st r sz =
     (if sz = 0 then Inr (0, st)
      else if real_malloc st then
        (let st1 = emit (Real_malloc (alignment + sz)) st;
             ret = r;
             st2 = inc_count sz st1
         in if ret = 0 then Inl Null_deref
            else Inr (ret + alignment, st2\<lparr>mem := prepend (mem st2) ret sz 0\<rparr>))
      else
        (if INIT_HEAP_SIZE < init_heap_use st + alignment + sz
         then Inl (Exit_failure Init_heap_full)
         else
           (let ret = init_heap st + init_heap_use st;
                st1 = st\<lparr>init_heap_use := init_heap_use st + (alignment + sz)\<rparr>
            in Inr (ret + alignment, st1\<lparr>mem := prepend (mem st1) ret sz 0\<rparr>))))"

text \<open>
  \<^verbatim>\<open>aligned_alloc(al, size)\<close>; \<open>r\<close> is what the real \<^verbatim>\<open>aligned_alloc\<close> returns.
\<close>

definition aligned_alloc :: "state \<Rightarrow> ptr \<Rightarrow> size_t \<Rightarrow> size_t \<Rightarrow> error + ptr \<times> state" where
  "aligned_alloc st r al sz =
     (if sz = 0 then Inr (0, st)
      else if \<not> real_aligned_alloc st then Inl (Exit_failure Aligned_alloc_in_init_heap)
      else
        (let extra_alignment = (if alignment \<le> al then al - alignment else 0);
             st1 = emit (Real_aligned_alloc al (sz + alignment + extra_alignment)) st;
             ret = r + extra_alignment;
             st2 = inc_count sz st1
         in if r = 0 then Inl Null_deref
            else Inr (ret + alignment,
                      st2\<lparr>mem := prepend (mem st2) ret sz extra_alignment\<rparr>)))"

text \<open>
  \<^verbatim>\<open>posix_memalign(memptr, al, size)\<close>: \<^verbatim>\<open>*memptr = aligned_alloc(al, size); return 0;\<close>
  The store goes through \<open>memptr\<close> without a test, after \<^verbatim>\<open>aligned_alloc\<close> has returned: a
  null \<open>memptr\<close> is a store through the null pointer.
\<close>

definition posix_memalign ::
  "state \<Rightarrow> ptr \<Rightarrow> ptr \<Rightarrow> size_t \<Rightarrow> size_t \<Rightarrow> error + c_int \<times> state" where
  "posix_memalign st r memptr al sz =
     (case aligned_alloc st r al sz of
        Inl e \<Rightarrow> Inl e
      | Inr (p, st1) \<Rightarrow>
          if memptr = 0 then Inl Null_deref
          else Inr (0, st1\<lparr>mem := store64 (mem st1) memptr p\<rparr>))"

definition memalign :: "state \<Rightarrow> ptr \<Rightarrow> size_t \<Rightarrow> size_t \<Rightarrow> error + ptr \<times> state" where
  "memalign st r al sz = aligned_alloc st r al sz"

text \<open>\<^verbatim>\<open>free(ptr)\<close>. It has no path that ends the process.\<close>

definition free :: "state \<Rightarrow> ptr \<Rightarrow> state" where
  "free st p =
     (if p = 0 then st
      else if in_init_heap st p then st
      else if \<not> real_free st then emit (Stderr (Free_without_real_free p)) st
      else
        (let b = p - alignment;
             st1 = (if load64 (mem st) (b + alignment - 8) \<noteq> sentinel
                    then emit (Stderr (Free_no_sentinel b)) st else st);
             sz = load64 (mem st1) b;
             extra_alignment = load64 (mem st1) (b + 8);
             b' = b - extra_alignment;
             st2 = dec_count sz st1
         in emit (Real_free b') st2))"

text \<open>
  Whether the block that \<^verbatim>\<open>malloc(size)\<close> obtains in state \<open>st\<close> really has room for the header
  and \<open>size\<close> bytes. From the real \<^verbatim>\<open>malloc\<close> it asks for \<^verbatim>\<open>alignment + size\<close> bytes, a sum in
  \<^verbatim>\<open>size_t\<close>: the block has room unless that sum wraps around. In the bootstrap arena the
  block starts at \<^verbatim>\<open>init_heap + init_heap_use\<close> and the array ends after
  \<^verbatim>\<open>INIT_HEAP_SIZE\<close> bytes.
\<close>

definition block_holds :: "state \<Rightarrow> size_t \<Rightarrow> bool" where
  "block_holds st sz \<longleftrightarrow>
     (if real_malloc st then unat alignment + unat sz < 2 ^ 64
      else unat (init_heap_use st) + unat alignment + unat sz \<le> unat INIT_HEAP_SIZE)"

text \<open>
  \<^verbatim>\<open>calloc(nmemb, size)\<close>, "implemented using our malloc". \<^verbatim>\<open>memset(ret, 0, size)\<close> writes
  \<open>size\<close> bytes from \<open>ret\<close> without a test: when the block that \<^verbatim>\<open>malloc\<close> obtained has no
  room for them, it runs past the end of the block.
\<close>

definition calloc :: "state \<Rightarrow> ptr \<Rightarrow> size_t \<Rightarrow> size_t \<Rightarrow> error + ptr \<times> state" where
  "calloc st r nmemb sz =
     (let total_size = sz * nmemb
      in if total_size = 0 then Inr (0, st)
         else
           (case malloc st r total_size of
              Inl e \<Rightarrow> Inl e
            | Inr (ret, st1) \<Rightarrow>
                if \<not> block_holds st total_size then Inl Overrun
                else Inr (ret, st1\<lparr>mem := memset (mem st1) ret 0 total_size\<rparr>)))"

text \<open>
  \<^verbatim>\<open>realloc(ptr, size)\<close>. \<open>r\<close> is what the one real function that this call reaches returns
  (the real \<^verbatim>\<open>malloc\<close> or the real \<^verbatim>\<open>realloc\<close>); \<open>moved\<close> is the number of bytes that the
  real \<^verbatim>\<open>realloc\<close> copies to the new block when it moves it. The statement
  \<^verbatim>\<open>extra_alignment = *(size_t*)(ptr + sizeof(size_t)) = 0;\<close> stores 0 in the header and
  leaves \<open>extra_alignment = 0\<close>.
\<close>

definition realloc ::
  "state \<Rightarrow> ptr \<Rightarrow> size_t \<Rightarrow> ptr \<Rightarrow> size_t \<Rightarrow> error + ptr \<times> state" where
  "realloc st r moved p sz =
     (if in_init_heap st p then
        (let b = p - alignment;
             st1 = (if load64 (mem st) (b + alignment - 8) \<noteq> sentinel
                    then emit (Stderr (Realloc_no_sentinel b)) st else st);
             oldsize = load64 (mem st1) b
         in if sz \<le> oldsize
            then Inr (b + alignment, st1\<lparr>mem := store64 (mem st1) b sz\<rparr>)
            else
              (let p0 = b + alignment
               in case malloc st1 r sz of
                    Inl e \<Rightarrow> Inl e
                  | Inr (newptr, st2) \<Rightarrow>
                      Inr (newptr, free (st2\<lparr>mem := memcpy (mem st2) newptr p0 oldsize\<rparr>) p0)))
      else if sz = 0 then Inr (0, free st p)
      else if p = 0 then malloc st r sz
      else
        (let b = p - alignment;
             st1 = (if load64 (mem st) (b + alignment - 8) \<noteq> sentinel
                    then emit (Stderr (Free_no_sentinel b)) st else st);
             oldsize = load64 (mem st1) b;
             st2 = st1\<lparr>mem := store64 (mem st1) (b + 8) 0\<rparr>;
             extra_alignment = 0;
             st3 = inc_count sz (dec_count oldsize st2)
         in if \<not> real_realloc st3 then Inl Null_deref
            else
              (let st4 = emit (Real_realloc b (sz + alignment + extra_alignment)) st3;
                   newptr = r;
                   st5 = (if newptr = b then st4
                          else st4\<lparr>mem := memcpy (mem st4) newptr b moved\<rparr>)
               in if newptr = 0 then Inl Null_deref
                  else Inr (newptr + alignment + extra_alignment,
                            st5\<lparr>mem := store64 (mem st5) newptr sz\<rparr>))))"

text \<open>
  The constructor \<^verbatim>\<open>init\<close>: four \<^verbatim>\<open>dlsym\<close> lookups, each followed by \<^verbatim>\<open>dlerror\<close>. An
  argument is \<open>None\<close> when \<^verbatim>\<open>dlerror\<close> reports an error for that lookup and \<open>Some b\<close> when it
  does not, \<open>b\<close> telling whether the symbol found is non-null.
\<close>

definition init ::
  "state \<Rightarrow> bool option \<Rightarrow> bool option \<Rightarrow> bool option \<Rightarrow> bool option \<Rightarrow> error + state" where
  "init st m a r f =
     (case m of None \<Rightarrow> Inl (Exit_failure Resolve_error) | Some bm \<Rightarrow>
      case a of None \<Rightarrow> Inl (Exit_failure Resolve_error) | Some ba \<Rightarrow>
      case r of None \<Rightarrow> Inl (Exit_failure Resolve_error) | Some br \<Rightarrow>
      case f of None \<Rightarrow> Inl (Exit_failure Resolve_error) | Some bf \<Rightarrow>
        Inr (st\<lparr>real_malloc := bm, real_aligned_alloc := ba, real_realloc := br,
                 real_free := bf\<rparr>))"

text \<open>The destructor \<^verbatim>\<open>finish\<close>.\<close>

definition finish :: "state \<Rightarrow> state" where
  "finish st = emit (Stderr (Exiting (total st) (peak st) (curr st))) st"

section \<open>Sequences of calls, and the ledger in the specification's words\<close>




definition smax :: "llong \<Rightarrow> llong \<Rightarrow> llong" where
  "smax a b = (if sint a < sint b then b else a)"










text \<open>
  Concrete states for evaluation. First zeroed memory, and the process before \<^verbatim>\<open>init\<close> has
  run and after it has resolved all four symbols, with the bootstrap arena at address
  \<open>0x10000\<close> and no callback.
\<close>

definition zero_mem :: memory where
  "zero_mem = (\<lambda>x. 0)"

definition boot0 :: state where
  "boot0 =
     \<lparr>real_malloc = False, real_aligned_alloc = False, real_free = False, real_realloc = False,
      init_heap = 0x10000, init_heap_use = 0, peak = 0, curr = 0, total = 0, num_allocs = 0,
      callback = False, mem = zero_mem, trace = []\<rparr>"

definition ready0 :: state where
  "ready0 =
     boot0\<lparr>real_malloc := True, real_aligned_alloc := True, real_realloc := True,
           real_free := True\<rparr>"

text \<open>
  The state after \<^verbatim>\<open>malloc(100)\<close>, answered at \<open>0x2000\<close>, once the program has overwritten the
  end of the header: the size field still holds 100, the sentinel field holds zeros.
\<close>

definition smashed :: state where
  "smashed = ready0\<lparr>curr := 100, peak := 100, total := 100, num_allocs := 1,
                     mem := store64 zero_mem 0x2000 100, trace := [Real_malloc 132]\<rparr>"

text \<open>
  The state after the single call \<^verbatim>\<open>malloc(64)\<close> before \<^verbatim>\<open>init\<close>: one block in the bootstrap
  arena, user pointer \<open>0x10020\<close>.
\<close>

definition boot1 :: state where
  "boot1 = boot0\<lparr>init_heap_use := 96, mem := prepend zero_mem 0x10000 64 0\<rparr>"

text \<open>
  The state after \<^verbatim>\<open>malloc((size_t)-32)\<close> before \<^verbatim>\<open>init\<close>, followed by a successful
  \<^verbatim>\<open>init\<close>: the arena holds the header of that block and \<^verbatim>\<open>init_heap_use\<close> is still 0.
\<close>

definition wrapped :: state where
  "wrapped = ready0\<lparr>mem := prepend zero_mem 0x10000 0xFFFFFFFFFFFFFFE0 0\<rparr>"

text \<open>
  The state after \<^verbatim>\<open>malloc(8)\<close>, answered at \<open>0x2000\<close>, once the program has written below
  its block and set every bit of the header's size field.
\<close>

definition overwritten :: state where
  "overwritten =
     ready0\<lparr>curr := 8, peak := 8, total := 8, num_allocs := 1,
            mem := store64 (prepend zero_mem 0x2000 8 0) 0x2000 0xFFFFFFFFFFFFFFFF,
            trace := [Real_malloc 40]\<rparr>"

text \<open>
  \<^verbatim>\<open>free(q)\<close> either does not reach the ledger (\<open>q\<close> null, \<open>q\<close> in the bootstrap arena, real
  \<^verbatim>\<open>free\<close> unresolved), or the size it decodes from the header is not negative as a
  \<^verbatim>\<open>long long\<close> and can be subtracted from \<open>current\<close> without signed wrap-around.
\<close>

definition benign_free :: "state \<Rightarrow> ptr \<Rightarrow> bool" where
  "benign_free st q \<longleftrightarrow>
     q = 0 \<or> in_init_heap st q \<or> \<not> real_free st
     \<or> (0 \<le> sint (load64 (mem st) (q - alignment))
        \<and> - (2 ^ 63) \<le> sint (curr st) - sint (load64 (mem st) (q - alignment)))"


section \<open>Memory: what a load sees after a store\<close>

lemma bit_byte_at:
  "bit (push_bit k (ucast (byte_of v i)) :: 64 word) n \<longleftrightarrow>
     k \<le> n \<and> n < 64 \<and> n - k < 8 \<and> bit v (8 * i + (n - k))"
  by (auto simp add: byte_of_def bit_simps)

lemma bit_byte_at0:
  "bit (ucast (byte_of v 0) :: 64 word) n \<longleftrightarrow> n < 8 \<and> bit v n"
  by (auto simp add: byte_of_def bit_simps)

lemma bytes_join:
  "join8 (byte_of v 0) (byte_of v 1) (byte_of v 2) (byte_of v 3)
         (byte_of v 4) (byte_of v 5) (byte_of v 6) (byte_of v 7) = v"
proof (rule bit_word_eqI)
  fix n assume n: "n < LENGTH(64)"
  define q r where "q = n div 8" and "r = n mod 8"
  then have nqr: "n = 8 * q + r" and r: "r < 8" by simp_all
  with n have "q < 8" by simp
  then consider "q = 0" | "q = 1" | "q = 2" | "q = 3" | "q = 4" | "q = 5" | "q = 6" | "q = 7"
    by linarith
  then show "bit (join8 (byte_of v 0) (byte_of v 1) (byte_of v 2) (byte_of v 3)
                        (byte_of v 4) (byte_of v 5) (byte_of v 6) (byte_of v 7)) n = bit v n"
    unfolding join8_def bit_or_iff bit_byte_at bit_byte_at0 nqr
    using r by cases simp_all
qed

lemma store64_at: "k < 8 \<Longrightarrow> store64 m a v (a + k) = byte_of v (unat k)"
  by (simp add: store64_def)

lemma store64_outside: "8 \<le> x - a \<Longrightarrow> store64 m a v x = m x"
  by (simp add: store64_def not_less [symmetric])

lemma load64_store64_same: "load64 (store64 m a v) a = v"
proof -
  have "store64 m a v a = byte_of v 0" using store64_at [of 0 m a v] by simp
  moreover have "store64 m a v (a + 1) = byte_of v 1" using store64_at [of 1 m a v] by simp
  moreover have "store64 m a v (a + 2) = byte_of v 2" using store64_at [of 2 m a v] by simp
  moreover have "store64 m a v (a + 3) = byte_of v 3" using store64_at [of 3 m a v] by simp
  moreover have "store64 m a v (a + 4) = byte_of v 4" using store64_at [of 4 m a v] by simp
  moreover have "store64 m a v (a + 5) = byte_of v 5" using store64_at [of 5 m a v] by simp
  moreover have "store64 m a v (a + 6) = byte_of v 6" using store64_at [of 6 m a v] by simp
  moreover have "store64 m a v (a + 7) = byte_of v 7" using store64_at [of 7 m a v] by simp
  ultimately show ?thesis
    unfolding load64_def by (simp only: bytes_join)
qed

lemma unat_neg_sum:
  fixes d :: "64 word"
  assumes "d \<noteq> 0"
  shows "unat d + unat (- d) = 2 ^ 64"
proof -
  have "(unat d + unat (- d)) mod 2 ^ 64 = 0"
    using unat_word_ariths(1) [of d "- d"] by simp
  then obtain k where k: "unat d + unat (- d) = 2 ^ 64 * k"
    by (auto simp: mod_eq_0_iff_dvd)
  have "unat d < 2 ^ 64" "unat (- d) < 2 ^ 64"
    using unsigned_less [of d] unsigned_less [of "- d"] by simp_all
  moreover have "0 < unat d" using assms by (simp add: unat_gt_0)
  ultimately have "0 < k" "k < 2" using k by (cases k; simp)+
  then have "k = 1" by simp
  with k show ?thesis by simp
qed

text \<open>
  A distance that is at least 8 in both directions of the circular address space stays at
  least 8 when an offset below 8 is added.
\<close>

lemma range_shift:
  fixes d i :: "64 word"
  assumes "8 \<le> d" "8 \<le> - d" "i < 8"
  shows "8 \<le> d + i"
proof -
  have d8: "8 \<le> unat d" and n8: "8 \<le> unat (- d)" and i8: "unat i < 8"
    using assms by (simp_all add: word_le_nat_alt word_less_nat_alt)
  have "d \<noteq> 0" using d8 by auto
  then have "unat d + unat (- d) = 2 ^ 64" by (rule unat_neg_sum)
  then have "unat d + unat i < 2 ^ 64" using n8 i8 by linarith
  then have "unat (d + i) = unat d + unat i"
    using unat_add_lem [of d i] by simp
  then show ?thesis using d8 by (simp add: word_le_nat_alt)
qed

lemma load64_store64_other:
  assumes "8 \<le> b - a" "8 \<le> a - b"
  shows "load64 (store64 m a v) b = load64 m b"
proof -
  have *: "8 \<le> (b + i) - a" if "i < 8" for i :: "64 word"
    using range_shift [of "b - a" i] assms that by (simp add: algebra_simps)
  have "store64 m a v (b + i) = m (b + i)" if "i < 8" for i :: "64 word"
    using * [OF that] by (rule store64_outside)
  from this [of 0] this [of 1] this [of 2] this [of 3] this [of 4] this [of 5] this [of 6] this [of 7]
  show ?thesis
    unfolding load64_def by simp
qed

lemma load64_zero [simp]: "load64 zero_mem a = 0"
  by (simp add: load64_def join8_def zero_mem_def)

section \<open>Evaluation and word arithmetic\<close>

lemmas state_defs =
  boot0_def ready0_def alignment_def sentinel_def INIT_HEAP_SIZE_def emit_def
  inc_count_def dec_count_def in_init_heap_def

lemma unat_two_power:
  assumes "k < 64"
  shows "unat ((2::64 word) ^ k) = 2 ^ k"
proof -
  have "(2::64 word) ^ k = of_nat (2 ^ k)" by simp
  then have "unat ((2::64 word) ^ k) = 2 ^ k mod 2 ^ 64"
    by (simp only: unat_of_nat) simp
  moreover have "(2::nat) ^ k < 2 ^ 64"
    using assms by (simp only: power_strict_increasing_iff one_less_numeral_iff semiring_norm)
  ultimately show ?thesis by simp
qed

lemma dvd_unat_add:
  fixes x y :: "64 word"
  assumes "k \<le> 64" "2 ^ k dvd unat x" "2 ^ k dvd unat y"
  shows "2 ^ k dvd unat (x + y)"
proof -
  have "(2::nat) ^ k dvd 2 ^ 64" using assms(1) by (rule le_imp_power_dvd)
  moreover have "2 ^ k dvd unat x + unat y" using assms(2,3) by (rule dvd_add)
  ultimately have "2 ^ k dvd (unat x + unat y) mod 2 ^ 64" by (rule dvd_mod [rotated])
  then show ?thesis by (simp add: unat_word_ariths)
qed

lemma smashed_facts:
  "(0x2020::ptr) \<noteq> 0" "\<not> in_init_heap smashed 0x2020"
  "load64 (mem smashed) (0x2020 - 8) \<noteq> sentinel"
  "real_free smashed" "real_realloc smashed" "\<not> callback smashed"
  "load64 (mem smashed) (0x2020 - alignment) = 100"
  "load64 (mem smashed) (0x2020 - alignment + 8) = 0"
  "curr smashed = 100" "total smashed = 100" "num_allocs smashed = 1" "peak smashed = 100"
  "trace smashed = [Real_malloc 132]"
  by (simp_all add: smashed_def state_defs load64_store64_same load64_store64_other)

section \<open>Zero-size requests\<close>

text \<open>
  C8. For every alignment \<open>a\<close>, \<^verbatim>\<open>malloc(0)\<close> and \<^verbatim>\<open>aligned_alloc(a, 0)\<close> return the null
  pointer and leave the whole state as it was: the four counters, the memory (no header is
  written) and the trace (no real allocator call, no callback). This holds whether or not
  the real functions have been resolved.
\<close>

theorem zero_size_request_is_noop:
  "malloc st r 0 = Inr (0, st) \<and> aligned_alloc st r a 0 = Inr (0, st)"
  by (simp add: malloc_def aligned_alloc_def)

section \<open>Aligned allocation\<close>

text \<open>
  C3. Let the real \<^verbatim>\<open>aligned_alloc\<close> be resolved, \<open>sz > 0\<close>, and \<open>a\<close> a power of two; let the
  real allocator succeed with a block \<open>r\<close> aligned to \<open>a\<close>. Then \<^verbatim>\<open>aligned_alloc(a, sz)\<close>
  computes \<open>extra = max(0, a - 32)\<close>, asks the real aligned allocator for
  \<open>sz + 32 + extra\<close> bytes at alignment \<open>a\<close> (its only call of a real function), and returns
  the user pointer \<open>r + extra + 32\<close>, which is a multiple of \<open>a\<close>.
\<close>

theorem aligned_alloc_alignment:
  assumes ready: "real_aligned_alloc st" and sz: "sz \<noteq> 0" and r: "r \<noteq> 0"
    and a: "a = 2 ^ k" and k: "k < 64" and ra: "unat a dvd unat r"
  shows "\<exists>extra st'.
           uint extra = max 0 (uint a - uint alignment)
         \<and> aligned_alloc st r a sz = Inr (r + extra + alignment, st')
         \<and> trace st' = trace st @ Real_aligned_alloc a (sz + alignment + extra)
                          # (if callback st then [Callback (curr st + sz)] else [])
         \<and> unat a dvd unat (r + extra + alignment)"
proof -
  define extra where "extra = (if alignment \<le> a then a - alignment else 0)"
  have ua: "unat a = 2 ^ k" using a k by (simp add: unat_two_power)
  have e1: "uint extra = max 0 (uint a - uint alignment)"
    by (auto simp add: extra_def uint_sub_lem [THEN iffD1] word_le_def)
  have e3: "unat a dvd unat (r + extra + alignment)"
  proof (cases "alignment \<le> a")
    case True
    then have "extra + alignment = a" by (simp add: extra_def)
    then have "r + extra + alignment = r + a" by (simp only: add.assoc)
    moreover have "2 ^ k dvd unat (r + a)"
      using dvd_unat_add [of k r a] k ra ua by simp
    ultimately show ?thesis using ua by (simp only:)
  next
    case False
    then have "unat a < 32" by (simp add: alignment_def word_le_nat_alt)
    then have "(2::nat) ^ k < 2 ^ 5" using ua by simp
    then have "k < 5" by (simp only: power_strict_increasing_iff)
    then have "k \<le> 5" by simp
    then have "(2::nat) ^ k dvd 2 ^ 5" by (rule le_imp_power_dvd)
    then have "2 ^ k dvd unat alignment" by (simp add: alignment_def)
    then have "2 ^ k dvd unat (r + alignment)"
      using dvd_unat_add [of k r alignment] k ra ua by simp
    then show ?thesis using False ua by (simp add: extra_def)
  qed
  have e2: "\<exists>st'. aligned_alloc st r a sz = Inr (r + extra + alignment, st')
         \<and> trace st' = trace st @ Real_aligned_alloc a (sz + alignment + extra)
                          # (if callback st then [Callback (curr st + sz)] else [])"
    using ready sz r
    by (simp add: aligned_alloc_def Let_def extra_def inc_count_def emit_def)
  from e1 e2 e3 show ?thesis by blast
qed

text \<open>The request \<^verbatim>\<open>aligned_alloc(4096, 10)\<close> of the specification, the real block at \<open>0x5000\<close>.\<close>

theorem aligned_alloc_alignment_witness:
  "real_aligned_alloc ready0 \<and> (10::size_t) \<noteq> 0 \<and> (0x5000::ptr) \<noteq> 0
   \<and> (4096::size_t) = 2 ^ 12 \<and> (12::nat) < 64 \<and> unat (4096::size_t) dvd unat (0x5000::ptr)
   \<and> (\<exists>extra st'.
           uint extra = max 0 (uint (4096::size_t) - uint alignment)
         \<and> aligned_alloc ready0 0x5000 4096 10 = Inr (0x5000 + extra + alignment, st')
         \<and> trace st' = trace ready0 @ Real_aligned_alloc 4096 (10 + alignment + extra)
                          # (if callback ready0 then [Callback (curr ready0 + 10)] else [])
         \<and> unat (4096::size_t) dvd unat (0x5000 + extra + alignment))"
proof -
  have h1: "real_aligned_alloc ready0" by (simp add: state_defs)
  have h2: "(10::size_t) \<noteq> 0" by simp
  have h3: "(0x5000::ptr) \<noteq> 0" by simp
  have h4: "(4096::size_t) = 2 ^ 12" by simp
  have h5: "(12::nat) < 64" by simp
  have h6: "unat (4096::size_t) dvd unat (0x5000::ptr)" by simp
  from aligned_alloc_alignment [OF h1 h2 h3 h4 h5 h6] h1 h2 h3 h4 h5 h6
  show ?thesis by blast
qed

section \<open>The \<^verbatim>\<open>posix_memalign\<close> and \<^verbatim>\<open>memalign\<close> adapters\<close>

text \<open>
  With a null \<open>memptr\<close> the store \<^verbatim>\<open>*memptr = ...\<close> is a store through the null pointer,
  once \<^verbatim>\<open>aligned_alloc\<close> has returned.
\<close>

lemma posix_memalign_null_memptr:
  assumes "aligned_alloc st r al sz = Inr (p, st1)"
  shows "posix_memalign st r 0 al sz = Inl Null_deref"
  using assms by (simp add: posix_memalign_def)

text \<open>
  C10. For every non-null \<open>memptr\<close>, alignment \<open>al\<close> and size \<open>sz\<close>: whenever
  \<^verbatim>\<open>aligned_alloc(al, sz)\<close> returns a pointer \<open>p\<close>, \<^verbatim>\<open>posix_memalign(memptr, al, sz)\<close> stores \<open>p\<close>
  at \<open>*memptr\<close> (a load there reads \<open>p\<close> back) and returns 0; for \<open>sz = 0\<close> it returns 0 with
  \<open>*memptr\<close> set to null. For every \<open>memptr\<close>, whatever \<^verbatim>\<open>posix_memalign\<close> returns is 0, so
  there is no error code; and \<^verbatim>\<open>memalign(al, sz)\<close> is exactly \<^verbatim>\<open>aligned_alloc(al, sz)\<close>.
\<close>

theorem posix_memalign_returns_zero:
  "(\<forall>p st1. memptr \<noteq> 0 \<and> aligned_alloc st r al sz = Inr (p, st1) \<longrightarrow>
       posix_memalign st r memptr al sz = Inr (0, st1\<lparr>mem := store64 (mem st1) memptr p\<rparr>)
       \<and> load64 (mem (st1\<lparr>mem := store64 (mem st1) memptr p\<rparr>)) memptr = p)
   \<and> (\<forall>c st'. posix_memalign st r memptr al sz = Inr (c, st') \<longrightarrow> c = 0)
   \<and> (memptr \<noteq> 0 \<longrightarrow>
        posix_memalign st r memptr al 0 = Inr (0, st\<lparr>mem := store64 (mem st) memptr 0\<rparr>))
   \<and> memalign st r al sz = aligned_alloc st r al sz"
  by (auto simp add: posix_memalign_def memalign_def aligned_alloc_def load64_store64_same
      split: sum.splits if_splits)

theorem posix_memalign_returns_zero_witness:
  "(0x7000::ptr) \<noteq> 0
   \<and> (\<exists>p st1. aligned_alloc ready0 0x5000 4096 10 = Inr (p, st1)
         \<and> posix_memalign ready0 0x5000 0x7000 4096 10
             = Inr (0, st1\<lparr>mem := store64 (mem st1) 0x7000 p\<rparr>)
         \<and> load64 (mem (st1\<lparr>mem := store64 (mem st1) 0x7000 p\<rparr>)) 0x7000 = p)
   \<and> posix_memalign ready0 0x5000 0x7000 4096 0
       = Inr (0, ready0\<lparr>mem := store64 (mem ready0) 0x7000 0\<rparr>)"
proof -
  have n: "(0x7000::ptr) \<noteq> 0" by simp
  obtain p st1 where a: "aligned_alloc ready0 0x5000 4096 10 = Inr (p, st1)"
    by (simp add: aligned_alloc_def Let_def state_defs)
  with n posix_memalign_returns_zero [of "0x7000" ready0 "0x5000" 4096 10]
  show ?thesis by blast
qed

section \<open>\<^verbatim>\<open>calloc\<close>\<close>

text \<open>
  When the block that \<^verbatim>\<open>malloc\<close> obtained has no room for the product's bytes,
  \<^verbatim>\<open>memset\<close> runs past its end; \<^verbatim>\<open>calloc(1, SIZE_MAX)\<close> is such a call: the real \<^verbatim>\<open>malloc\<close>
  is asked for \<open>32 + (2^64 - 1)\<close>, which is 31 bytes in \<^verbatim>\<open>size_t\<close>.
\<close>

lemma calloc_overrun:
  assumes "sz * nmemb \<noteq> 0" "\<not> block_holds st (sz * nmemb)"
    "malloc st r (sz * nmemb) = Inr (p, st1)"
  shows "calloc st r nmemb sz = Inl Overrun"
  using assms by (simp add: calloc_def)

lemma calloc_size_max: "calloc ready0 0x1000 1 0xFFFFFFFFFFFFFFFF = Inl Overrun"
proof -
  have "\<exists>p st1. malloc ready0 0x1000 (0xFFFFFFFFFFFFFFFF * 1) = Inr (p, st1)"
    by (simp add: malloc_def Let_def ready0_def boot0_def)
  moreover have "\<not> block_holds ready0 (0xFFFFFFFFFFFFFFFF * 1)"
    by (simp add: block_holds_def ready0_def boot0_def alignment_def)
  moreover have "(0xFFFFFFFFFFFFFFFF :: size_t) * 1 \<noteq> 0" by simp
  ultimately show ?thesis using calloc_overrun [of "0xFFFFFFFFFFFFFFFF" 1 ready0 "0x1000"] by blast
qed

text \<open>
  C9. For every \<open>nmemb\<close> and \<open>sz\<close>, \<^verbatim>\<open>calloc(nmemb, sz)\<close> first forms the product as a plain
  64-bit multiplication, that is, modulo \<open>2^64\<close> with no overflow check. If that product is 0
  it returns null and changes nothing. Otherwise it behaves as \<^verbatim>\<open>malloc\<close> of the product
  (ending the way \<^verbatim>\<open>malloc\<close> ends if that does not return) and then, the block obtained having
  room for the product's bytes, sets exactly the bytes \<open>p, ..., p + product - 1\<close> of the
  returned block to zero, leaving every other byte and the rest of the state as \<^verbatim>\<open>malloc\<close>
  left them.
\<close>

theorem calloc_product_then_zero_fill:
  "unat (sz * nmemb) = (unat nmemb * unat sz) mod 2 ^ 64
   \<and> (sz * nmemb = 0 \<longrightarrow> calloc st r nmemb sz = Inr (0, st))
   \<and> (sz * nmemb \<noteq> 0 \<longrightarrow>
        (\<forall>e. malloc st r (sz * nmemb) = Inl e \<longrightarrow> calloc st r nmemb sz = Inl e)
      \<and> (\<forall>p st1. block_holds st (sz * nmemb) \<and> malloc st r (sz * nmemb) = Inr (p, st1) \<longrightarrow>
            (\<exists>m2. calloc st r nmemb sz = Inr (p, st1\<lparr>mem := m2\<rparr>)
                 \<and> (\<forall>x. m2 x = (if x - p < sz * nmemb then 0 else mem st1 x)))))"
proof -
  have "unat (sz * nmemb) = (unat nmemb * unat sz) mod 2 ^ 64"
    by (simp add: unat_word_ariths mult.commute)
  moreover have "sz * nmemb = 0 \<longrightarrow> calloc st r nmemb sz = Inr (0, st)"
    by (simp add: calloc_def)
  moreover have "calloc st r nmemb sz = Inl e"
    if "sz * nmemb \<noteq> 0" "malloc st r (sz * nmemb) = Inl e" for e
    using that by (simp add: calloc_def)
  moreover have "\<exists>m2. calloc st r nmemb sz = Inr (p, st1\<lparr>mem := m2\<rparr>)
                 \<and> (\<forall>x. m2 x = (if x - p < sz * nmemb then 0 else mem st1 x))"
    if "sz * nmemb \<noteq> 0" "block_holds st (sz * nmemb)"
      "malloc st r (sz * nmemb) = Inr (p, st1)" for p st1
  proof (intro exI conjI)
    show "calloc st r nmemb sz = Inr (p, st1\<lparr>mem := memset (mem st1) p 0 (sz * nmemb)\<rparr>)"
      using that by (simp add: calloc_def)
    show "\<forall>x. memset (mem st1) p 0 (sz * nmemb) x = (if x - p < sz * nmemb then 0 else mem st1 x)"
      by (simp add: memset_def)
  qed
  ultimately show ?thesis by blast
qed

text \<open>
  \<^verbatim>\<open>calloc(2^32, 2^32)\<close>, whose product wraps to 0, and \<^verbatim>\<open>calloc(3, 4)\<close>.
\<close>

theorem calloc_product_then_zero_fill_witness:
  "calloc ready0 0x1000 (2 ^ 32) (2 ^ 32) = Inr (0, ready0)
   \<and> block_holds ready0 (4 * 3)
   \<and> (\<exists>st1 m2. malloc ready0 0x1000 (4 * 3) = Inr (0x1020, st1)
         \<and> calloc ready0 0x1000 3 4 = Inr (0x1020, st1\<lparr>mem := m2\<rparr>)
         \<and> curr st1 = 12
         \<and> (\<forall>x. m2 x = (if x - 0x1020 < 4 * 3 then 0 else mem st1 x)))"
proof -
  have z: "(2 ^ 32 :: size_t) * 2 ^ 32 = 0" by simp
  have n: "(4 :: size_t) * 3 \<noteq> 0" by simp
  have b: "block_holds ready0 (4 * 3)"
    by (simp add: block_holds_def ready0_def boot0_def alignment_def)
  obtain st1 where m: "malloc ready0 0x1000 (4 * 3) = Inr (0x1020, st1)" and c: "curr st1 = 12"
    by (simp add: malloc_def Let_def state_defs)
  from calloc_product_then_zero_fill [of "2 ^ 32" "2 ^ 32" ready0 "0x1000"] z
  have "calloc ready0 0x1000 (2 ^ 32) (2 ^ 32) = Inr (0, ready0)" by blast
  moreover from calloc_product_then_zero_fill [of 4 3 ready0 "0x1000"] n b m
  obtain m2 where "calloc ready0 0x1000 3 4 = Inr (0x1020, st1\<lparr>mem := m2\<rparr>)"
    "\<forall>x. m2 x = (if x - 0x1020 < 4 * 3 then 0 else mem st1 x)" by blast
  ultimately show ?thesis using m c b by blast
qed

section \<open>Effects of the bookkeeping functions, field by field\<close>

lemma emit_fields [simp]:
  "trace (emit e st) = trace st @ [e]"
  "mem (emit e st) = mem st"
  "curr (emit e st) = curr st"
  "peak (emit e st) = peak st"
  "total (emit e st) = total st"
  "num_allocs (emit e st) = num_allocs st"
  "callback (emit e st) = callback st"
  "init_heap (emit e st) = init_heap st"
  "init_heap_use (emit e st) = init_heap_use st"
  "real_malloc (emit e st) = real_malloc st"
  "real_aligned_alloc (emit e st) = real_aligned_alloc st"
  "real_free (emit e st) = real_free st"
  "real_realloc (emit e st) = real_realloc st"
  by (simp_all add: emit_def)

lemma dec_count_fields [simp]:
  "trace (dec_count d st) = trace st @ (if callback st then [Callback (curr st - d)] else [])"
  "mem (dec_count d st) = mem st"
  "curr (dec_count d st) = curr st - d"
  "peak (dec_count d st) = peak st"
  "total (dec_count d st) = total st"
  "num_allocs (dec_count d st) = num_allocs st"
  "callback (dec_count d st) = callback st"
  "init_heap (dec_count d st) = init_heap st"
  "init_heap_use (dec_count d st) = init_heap_use st"
  "real_malloc (dec_count d st) = real_malloc st"
  "real_aligned_alloc (dec_count d st) = real_aligned_alloc st"
  "real_free (dec_count d st) = real_free st"
  "real_realloc (dec_count d st) = real_realloc st"
  by (simp_all add: dec_count_def Let_def)

lemma inc_count_fields [simp]:
  "trace (inc_count i st) = trace st @ (if callback st then [Callback (curr st + i)] else [])"
  "mem (inc_count i st) = mem st"
  "curr (inc_count i st) = curr st + i"
  "peak (inc_count i st) = smax (peak st) (curr st + i)"
  "total (inc_count i st) = total st + i"
  "num_allocs (inc_count i st) = num_allocs st + 1"
  "callback (inc_count i st) = callback st"
  "init_heap (inc_count i st) = init_heap st"
  "init_heap_use (inc_count i st) = init_heap_use st"
  "real_malloc (inc_count i st) = real_malloc st"
  "real_aligned_alloc (inc_count i st) = real_aligned_alloc st"
  "real_free (inc_count i st) = real_free st"
  "real_realloc (inc_count i st) = real_realloc st"
  by (simp_all add: inc_count_def Let_def smax_def)

lemma in_init_heap_cong:
  "init_heap st' = init_heap st \<Longrightarrow> init_heap_use st' = init_heap_use st \<Longrightarrow>
     in_init_heap st' p = in_init_heap st p"
  by (simp add: in_init_heap_def)

lemma in_init_heap_simps [simp]:
  "in_init_heap (emit e st) p = in_init_heap st p"
  "in_init_heap (dec_count d st) p = in_init_heap st p"
  "in_init_heap (inc_count i st) p = in_init_heap st p"
  "in_init_heap (st\<lparr>mem := m\<rparr>) p = in_init_heap st p"
  by (simp_all add: in_init_heap_def)

lemma mem_update_out:
  "emit e (st\<lparr>mem := m\<rparr>) = (emit e st)\<lparr>mem := m\<rparr>"
  "dec_count d (st\<lparr>mem := m\<rparr>) = (dec_count d st)\<lparr>mem := m\<rparr>"
  "inc_count i (st\<lparr>mem := m\<rparr>) = (inc_count i st)\<lparr>mem := m\<rparr>"
  by (simp_all add: emit_def dec_count_def inc_count_def Let_def)

section \<open>The paths through \<^verbatim>\<open>malloc\<close>, \<^verbatim>\<open>free\<close> and \<^verbatim>\<open>realloc\<close>\<close>

lemma sentinel_addr: "p - alignment + alignment - 8 = p - 8"
  by simp


text \<open>\<^verbatim>\<open>malloc\<close> before the real \<^verbatim>\<open>malloc\<close> is resolved, when the size check lets it pass.\<close>

lemma malloc_bootstrap:
  assumes "sz \<noteq> 0" "\<not> real_malloc st" "\<not> INIT_HEAP_SIZE < init_heap_use st + alignment + sz"
  shows "malloc st r sz =
     Inr (init_heap st + init_heap_use st + alignment,
          st\<lparr>init_heap_use := init_heap_use st + (alignment + sz),
             mem := prepend (mem st) (init_heap st + init_heap_use st) sz 0\<rparr>)"
  using assms by (simp add: malloc_def Let_def)

text \<open>\<^verbatim>\<open>free\<close> of a non-null pointer outside the bootstrap arena, the real \<^verbatim>\<open>free\<close> resolved.\<close>

lemma free_real:
  assumes "p \<noteq> 0" "\<not> in_init_heap st p" "real_free st"
  shows "free st p =
     emit (Real_free (p - alignment - load64 (mem st) (p - alignment + 8)))
       (dec_count (load64 (mem st) (p - alignment))
          (if load64 (mem st) (p - 8) \<noteq> sentinel
           then emit (Stderr (Free_no_sentinel (p - alignment))) st else st))"
  using assms unfolding free_def Let_def sentinel_addr
  by (cases "load64 (mem st) (p - 8) = sentinel") simp_all

lemma free_noop:
  "p = 0 \<or> in_init_heap st p \<Longrightarrow> free st p = st"
  by (auto simp add: free_def)

text \<open>
  \<^verbatim>\<open>realloc\<close> of a non-null pointer outside the bootstrap arena to a non-zero size, the
  real \<^verbatim>\<open>realloc\<close> resolved and succeeding.
\<close>

lemma realloc_real:
  assumes "\<not> in_init_heap st p" "sz \<noteq> 0" "p \<noteq> 0" "real_realloc st" "r \<noteq> 0"
  shows "\<exists>m'. realloc st r moved p sz =
     Inr (r + alignment,
          (emit (Real_realloc (p - alignment) (sz + alignment))
             (inc_count sz
                (dec_count (load64 (mem st) (p - alignment))
                   (if load64 (mem st) (p - 8) \<noteq> sentinel
                    then emit (Stderr (Free_no_sentinel (p - alignment))) st else st))))
            \<lparr>mem := m'\<rparr>)"
proof -
  define st1 where "st1 = (if load64 (mem st) (p - 8) \<noteq> sentinel
                    then emit (Stderr (Free_no_sentinel (p - alignment))) st else st)"
  define st3 where "st3 = inc_count sz (dec_count (load64 (mem st) (p - alignment)) st1)"
  define st4 where "st4 = emit (Real_realloc (p - alignment) (sz + alignment)) st3"
  have m1: "mem st1 = mem st" by (simp add: st1_def)
  have rr: "real_realloc st1" using assms(4) by (simp add: st1_def)
  have step: "realloc st r moved p sz =
     (let b = p - alignment;
             st1 = (if load64 (mem st) (b + alignment - 8) \<noteq> sentinel
                    then emit (Stderr (Free_no_sentinel b)) st else st);
             oldsize = load64 (mem st1) b;
             st2 = st1\<lparr>mem := store64 (mem st1) (b + 8) 0\<rparr>;
             extra_alignment = 0;
             st3 = inc_count sz (dec_count oldsize st2)
         in if \<not> real_realloc st3 then Inl Null_deref
            else
              (let st4 = emit (Real_realloc b (sz + alignment + extra_alignment)) st3;
                   newptr = r;
                   st5 = (if newptr = b then st4
                          else st4\<lparr>mem := memcpy (mem st4) newptr b moved\<rparr>)
               in if newptr = 0 then Inl Null_deref
                  else Inr (newptr + alignment + extra_alignment,
                            st5\<lparr>mem := store64 (mem st5) newptr sz\<rparr>)))"
    unfolding realloc_def using assms(1-3) by (simp only: if_False)
  have rr3: "real_realloc (inc_count sz (dec_count (load64 (mem st) (p - alignment))
                 (st1\<lparr>mem := store64 (mem st) (p - alignment + 8) 0\<rparr>)))"
    using rr by simp
  show ?thesis
    unfolding step Let_def sentinel_addr st1_def [symmetric] m1
    using rr3 assms(5) by (auto simp add: mem_update_out)
qed

section \<open>Decoding the header\<close>

lemma load64_prepend:
  "load64 (prepend m b s e) b = s"
  "load64 (prepend m b s e) (b + 8) = e"
  "load64 (prepend m b s e) (b + alignment - 8) = sentinel"
  by (simp_all add: prepend_def alignment_def load64_store64_same load64_store64_other)

lemma aligned_alloc_real:
  assumes "sz \<noteq> 0" "real_aligned_alloc st" "r \<noteq> 0"
  shows "aligned_alloc st r al sz =
     Inr (r + (if alignment \<le> al then al - alignment else 0) + alignment,
          (inc_count sz
             (emit (Real_aligned_alloc al
                      (sz + alignment + (if alignment \<le> al then al - alignment else 0))) st))
            \<lparr>mem := prepend (mem st) (r + (if alignment \<le> al then al - alignment else 0)) sz
                      (if alignment \<le> al then al - alignment else 0)\<rparr>)"
  using assms by (simp add: aligned_alloc_def Let_def)

text \<open>
  Right after \<^verbatim>\<open>malloc\<close> or \<^verbatim>\<open>aligned_alloc\<close> has written the header at \<open>b\<close>, \<^verbatim>\<open>free\<close> of the
  user pointer \<open>b + 32\<close> reads the size and the extra alignment back, subtracts the size from
  the ledger and hands \<open>b - extra\<close> to the real \<^verbatim>\<open>free\<close>.
\<close>

lemma free_decodes_header:
  assumes "mem st = prepend m b s e" "b + alignment \<noteq> 0" "\<not> in_init_heap st (b + alignment)"
    "real_free st"
  shows "free st (b + alignment) = emit (Real_free (b - e)) (dec_count s st)"
proof -
  have a: "load64 (mem st) (b + alignment - 8) = sentinel"
    "load64 (mem st) (b + alignment - alignment) = s"
    "load64 (mem st) (b + alignment - alignment + 8) = e"
    using assms(1) by (simp_all add: load64_prepend)
  show ?thesis
    unfolding free_real [OF assms(2,3,4)] a by simp
qed

text \<open>
  C2, at \<^verbatim>\<open>p = aligned_alloc(4096, 10)\<close> with the real block at \<open>0x5000\<close>. The user pointer is
  \<open>0x6000\<close> and the header stores the size 10 and the extra alignment 4064. \<^verbatim>\<open>free(p)\<close>
  passes \<open>p - 32 - 4064 = 0x5000\<close>, the real allocator's pointer, to the real \<^verbatim>\<open>free\<close>, as the
  claim says. \<^verbatim>\<open>realloc(p, 20)\<close> does not: it passes \<open>p - 32 = 0x5FE0\<close> to the real
  \<^verbatim>\<open>realloc\<close> and asks for \<open>20 + 32\<close> bytes, the stored extra alignment being overwritten
  with 0 instead of read.
\<close>

theorem realloc_drops_extra_alignment:
  "\<exists>st1 st2.
      aligned_alloc ready0 0x5000 4096 10 = Inr (0x6000, st1)
    \<and> trace st1 = [Real_aligned_alloc 4096 4106]
    \<and> load64 (mem st1) (0x6000 - alignment) = 10
    \<and> load64 (mem st1) (0x6000 - alignment + 8) = 4064
    \<and> trace (free st1 0x6000) = [Real_aligned_alloc 4096 4106, Real_free 0x5000]
    \<and> realloc st1 0x9000 0 0x6000 20 = Inr (0x9020, st2)
    \<and> trace st2 = [Real_aligned_alloc 4096 4106, Real_realloc 0x5FE0 52]"
proof -
  define st1 where "st1 = (inc_count 10 (emit (Real_aligned_alloc 4096 4106) ready0))
            \<lparr>mem := prepend (mem ready0) 0x5FE0 10 4064\<rparr>"
  have a: "aligned_alloc ready0 0x5000 4096 10 = Inr (0x6000, st1)"
    using aligned_alloc_real [of 10 ready0 "0x5000" 4096]
    by (simp add: st1_def alignment_def ready0_def boot0_def)
  have m: "mem st1 = prepend (mem ready0) 0x5FE0 10 4064" by (simp add: st1_def)
  have flags: "real_free st1" "real_realloc st1" "\<not> callback st1"
    "\<not> in_init_heap st1 0x6000" "trace st1 = [Real_aligned_alloc 4096 4106]"
    by (simp_all add: st1_def ready0_def boot0_def in_init_heap_def)
  have h: "load64 (mem st1) (0x6000 - alignment) = 10"
    "load64 (mem st1) (0x6000 - alignment + 8) = 4064"
    "load64 (mem st1) (0x6000 - 8) = sentinel"
    using load64_prepend [of "mem ready0" "0x5FE0" 10 4064]
    by (simp_all add: m alignment_def)
  have f: "trace (free st1 0x6000) = [Real_aligned_alloc 4096 4106, Real_free 0x5000]"
    using free_real [of "0x6000" st1] flags h by (simp add: alignment_def)
  from realloc_real [of st1 "0x6000" 20 "0x9000" 0] flags obtain m' where
    "realloc st1 0x9000 0 0x6000 20 =
      Inr (0x9000 + alignment,
          (emit (Real_realloc (0x6000 - alignment) (20 + alignment))
             (inc_count 20
                (dec_count (load64 (mem st1) (0x6000 - alignment))
                   (if load64 (mem st1) (0x6000 - 8) \<noteq> sentinel
                    then emit (Stderr (Free_no_sentinel (0x6000 - alignment))) st1 else st1))))
            \<lparr>mem := m'\<rparr>)" by auto
  then have "\<exists>st2. realloc st1 0x9000 0 0x6000 20 = Inr (0x9020, st2)
     \<and> trace st2 = [Real_aligned_alloc 4096 4106, Real_realloc 0x5FE0 52]"
    using flags h by (simp add: alignment_def)
  with a f h flags show ?thesis by blast
qed

section \<open>The edge cases of \<^verbatim>\<open>realloc\<close>\<close>

lemma realloc_zero:
  assumes "\<not> in_init_heap st p"
  shows "realloc st r moved p 0 = Inr (0, free st p)"
  unfolding realloc_def using assms by (simp only: if_False if_True refl)

lemma realloc_null:
  assumes "\<not> in_init_heap st 0"
  shows "realloc st r moved 0 n = malloc st r n"
proof (cases "n = 0")
  case True
  then show ?thesis
    using realloc_zero [OF assms, of r moved] by (simp add: free_noop malloc_def)
next
  case False
  show ?thesis
    unfolding realloc_def using assms False by (simp only: if_False if_True refl)
qed

lemma realloc_init_heap_shrink:
  assumes "in_init_heap st p" "sz \<le> load64 (mem st) (p - alignment)"
  shows "realloc st r moved p sz =
     Inr (p, (if load64 (mem st) (p - 8) \<noteq> sentinel
              then emit (Stderr (Realloc_no_sentinel (p - alignment))) st else st)
               \<lparr>mem := store64 (mem st) (p - alignment) sz\<rparr>)"
proof -
  have "realloc st r moved p sz =
     (let b = p - alignment;
             st1 = (if load64 (mem st) (b + alignment - 8) \<noteq> sentinel
                    then emit (Stderr (Realloc_no_sentinel b)) st else st);
             oldsize = load64 (mem st1) b
         in if sz \<le> oldsize
            then Inr (b + alignment, st1\<lparr>mem := store64 (mem st1) b sz\<rparr>)
            else
              (let p0 = b + alignment
               in case malloc st1 r sz of
                    Inl e \<Rightarrow> Inl e
                  | Inr (newptr, st2) \<Rightarrow>
                      Inr (newptr, free (st2\<lparr>mem := memcpy (mem st2) newptr p0 oldsize\<rparr>) p0)))"
    unfolding realloc_def using assms(1) by (simp only: if_True)
  then show ?thesis
    unfolding Let_def sentinel_addr using assms(2)
    by (cases "load64 (mem st) (p - 8) = sentinel") simp_all
qed

lemma boot1_facts:
  "malloc boot0 0 64 = Inr (0x10020, boot1)"
  "in_init_heap boot1 0x10020"
  "load64 (mem boot1) (0x10020 - 8) = sentinel"
  "init_heap boot1 \<noteq> 0"
  by (simp_all add: malloc_def Let_def boot1_def boot0_def in_init_heap_def alignment_def
      INIT_HEAP_SIZE_def load64_prepend [of _ "0x10000", unfolded alignment_def, simplified])

text \<open>
  C4 as stated fails for a pointer into the bootstrap arena. After \<^verbatim>\<open>malloc(64)\<close> before
  \<^verbatim>\<open>init\<close> has returned \<open>0x10020\<close>, \<^verbatim>\<open>free(0x10020)\<close> changes nothing, but
  \<^verbatim>\<open>realloc(0x10020, 0)\<close> takes the arena branch, which comes first in the source: it writes
  0 into the size field of the header and returns \<open>0x10020\<close>, not null.
\<close>

theorem realloc_zero_in_arena_counterexample:
  "malloc boot0 0 64 = Inr (0x10020, boot1)
   \<and> in_init_heap boot1 0x10020
   \<and> free boot1 0x10020 = boot1
   \<and> realloc boot1 0 0 0x10020 0 = Inr (0x10020, boot1\<lparr>mem := store64 (mem boot1) 0x10000 0\<rparr>)
   \<and> realloc boot1 0 0 0x10020 0 \<noteq> Inr (0, free boot1 0x10020)"
  using realloc_init_heap_shrink [of boot1 "0x10020" 0 0 0] boot1_facts
  by (simp add: free_noop alignment_def)

text \<open>
  C4, amended. For every size \<open>n\<close>, \<^verbatim>\<open>realloc(NULL, n)\<close> is \<^verbatim>\<open>malloc(n)\<close> (the bootstrap arena
  not being at address 0). For every pointer \<open>p\<close> outside the range of the bootstrap arena,
  \<^verbatim>\<open>realloc(p, 0)\<close> is \<^verbatim>\<open>free(p)\<close> and returns null. For a pointer \<open>p\<close> inside that range,
  \<^verbatim>\<open>realloc(p, 0)\<close> instead returns \<open>p\<close> itself, after checking the sentinel and setting the
  size recorded in \<open>p\<close>'s header to 0; it changes no counter and calls no real function.
\<close>

theorem realloc_edge_cases:
  "(init_heap st \<noteq> 0 \<longrightarrow> realloc st r moved 0 n = malloc st r n)
   \<and> (\<not> in_init_heap st p \<longrightarrow> realloc st r moved p 0 = Inr (0, free st p))
   \<and> (in_init_heap st p \<longrightarrow>
        realloc st r moved p 0 =
          Inr (p, (if load64 (mem st) (p - 8) \<noteq> sentinel
                   then emit (Stderr (Realloc_no_sentinel (p - alignment))) st else st)
                    \<lparr>mem := store64 (mem st) (p - alignment) 0\<rparr>))"
proof (intro conjI impI)
  assume "init_heap st \<noteq> 0"
  then have "\<not> in_init_heap st 0" by (simp add: in_init_heap_def)
  then show "realloc st r moved 0 n = malloc st r n" by (rule realloc_null)
next
  assume "\<not> in_init_heap st p"
  then show "realloc st r moved p 0 = Inr (0, free st p)" by (rule realloc_zero)
next
  assume "in_init_heap st p"
  then show "realloc st r moved p 0 =
          Inr (p, (if load64 (mem st) (p - 8) \<noteq> sentinel
                   then emit (Stderr (Realloc_no_sentinel (p - alignment))) st else st)
                    \<lparr>mem := store64 (mem st) (p - alignment) 0\<rparr>)"
    by (rule realloc_init_heap_shrink) simp
qed

theorem realloc_edge_cases_witness:
  "realloc boot1 0x1000 0 0 64 = malloc boot1 0x1000 64
   \<and> realloc smashed 0 0 0x2020 0 = Inr (0, free smashed 0x2020)
   \<and> realloc boot1 0x1000 0 0x10020 0 = Inr (0x10020, boot1\<lparr>mem := store64 (mem boot1) 0x10000 0\<rparr>)"
  using realloc_edge_cases [of boot1 "0x1000" 0 64 "0x10020"]
    realloc_edge_cases [of smashed 0 0 0 "0x2020"] boot1_facts smashed_facts(2)
  by (simp add: alignment_def)

section \<open>The bootstrap arena\<close>

lemma word_le_plus:
  fixes a x y :: "64 word"
  assumes "unat a + unat y < 2 ^ 64" "unat x \<le> unat y"
  shows "a \<le> a + x" "a + x \<le> a + y"
proof -
  have y: "unat (a + y) = unat a + unat y"
    using assms(1) unat_add_lem [of a y] by simp
  have "unat a + unat x < 2 ^ 64" using assms by linarith
  then have x: "unat (a + x) = unat a + unat x"
    using unat_add_lem [of a x] by simp
  show "a \<le> a + x" by (simp add: word_le_nat_alt x)
  show "a + x \<le> a + y" using assms(2) by (simp add: word_le_nat_alt x y)
qed

text \<open>
  A bootstrap allocation that fits the arena: no counter changes, no real function is called,
  the header is written, and \<^verbatim>\<open>free\<close> of the pointer is a no-op from then on, also after
  further bootstrap allocations that fit.
\<close>

lemma bootstrap_malloc_fits:
  assumes nr: "\<not> real_malloc st" and sz: "sz \<noteq> 0"
    and fits: "unat (init_heap_use st) + 32 + unat sz \<le> 2 ^ 20"
    and arena: "unat (init_heap st) + 2 ^ 20 < 2 ^ 64"
  shows "malloc st r sz =
     Inr (init_heap st + init_heap_use st + alignment,
          st\<lparr>init_heap_use := init_heap_use st + (alignment + sz),
             mem := prepend (mem st) (init_heap st + init_heap_use st) sz 0\<rparr>)"
    and "unat (init_heap_use st + (alignment + sz)) = unat (init_heap_use st) + 32 + unat sz"
    and "unat u' \<le> 2 ^ 20 \<Longrightarrow> init_heap_use st + (alignment + sz) \<le> u' \<Longrightarrow>
           init_heap st' = init_heap st \<Longrightarrow> init_heap_use st' = u' \<Longrightarrow>
           free st' (init_heap st + init_heap_use st + alignment) = st'"
proof -
  have a32: "unat alignment = 32" by (simp add: alignment_def)
  have "unat alignment + unat sz < 2 ^ 64" using fits a32 by simp
  then have u1: "unat (alignment + sz) = 32 + unat sz"
    using unat_add_lem [of alignment sz] a32 by simp
  then have "unat (init_heap_use st) + unat (alignment + sz) < 2 ^ 64" using fits by simp
  then have u2: "unat (init_heap_use st + (alignment + sz)) = unat (init_heap_use st) + 32 + unat sz"
    using unat_add_lem [of "init_heap_use st" "alignment + sz"] u1 by simp
  then show "unat (init_heap_use st + (alignment + sz)) = unat (init_heap_use st) + 32 + unat sz" .
  have "unat (init_heap_use st + alignment + sz) \<le> unat INIT_HEAP_SIZE"
    using u2 fits by (simp add: INIT_HEAP_SIZE_def add.assoc)
  then have "\<not> INIT_HEAP_SIZE < init_heap_use st + alignment + sz"
    by (simp add: word_less_nat_alt)
  with sz nr show "malloc st r sz =
     Inr (init_heap st + init_heap_use st + alignment,
          st\<lparr>init_heap_use := init_heap_use st + (alignment + sz),
             mem := prepend (mem st) (init_heap st + init_heap_use st) sz 0\<rparr>)"
    by (rule malloc_bootstrap)
  assume later: "unat u' \<le> 2 ^ 20" "init_heap_use st + (alignment + sz) \<le> u'"
    "init_heap st' = init_heap st" "init_heap_use st' = u'"
  have "unat (init_heap_use st) + unat alignment < 2 ^ 64" using fits a32 by simp
  then have u3: "unat (init_heap_use st + alignment) = unat (init_heap_use st) + 32"
    using unat_add_lem [of "init_heap_use st" alignment] a32 by simp
  have le: "unat (init_heap_use st + alignment) \<le> unat u'"
    using later(2) u2 u3 by (simp add: word_le_nat_alt)
  have "unat (init_heap st) + unat u' < 2 ^ 64" using later(1) arena by simp
  from word_le_plus [OF this le]
  have "in_init_heap st' (init_heap st + init_heap_use st + alignment)"
    by (simp add: in_init_heap_def later add.assoc)
  then show "free st' (init_heap st + init_heap_use st + alignment) = st'"
    by (simp add: free_noop)
qed

text \<open>
  C5 at the request \<^verbatim>\<open>malloc((size_t)-32)\<close> made before \<^verbatim>\<open>init\<close>. The test
  \<^verbatim>\<open>init_heap_use + alignment + size > INIT_HEAP_SIZE\<close> adds in \<^verbatim>\<open>size_t\<close>: \<open>0 + 32 + (2^64 - 32)\<close>
  wraps to 0, the request passes as if it fitted, the header is written at the start of the
  arena, \<open>0x10020\<close> is returned and \<^verbatim>\<open>init_heap_use\<close> stays 0. The pointer then lies outside
  the range \<^verbatim>\<open>[init_heap, init_heap + init_heap_use]\<close>, so after \<^verbatim>\<open>init\<close> a \<^verbatim>\<open>free\<close> of it is
  not a no-op: it subtracts the size from \<open>current\<close> (which becomes 32, above peak) and calls
  the real \<^verbatim>\<open>free\<close> on the static array.
\<close>

theorem bootstrap_size_check_wraps:
  "malloc boot0 0 0xFFFFFFFFFFFFFFE0
     = Inr (0x10020, boot0\<lparr>mem := prepend zero_mem 0x10000 0xFFFFFFFFFFFFFFE0 0\<rparr>)
   \<and> init (boot0\<lparr>mem := prepend zero_mem 0x10000 0xFFFFFFFFFFFFFFE0 0\<rparr>)
          (Some True) (Some True) (Some True) (Some True) = Inr wrapped
   \<and> \<not> in_init_heap wrapped 0x10020
   \<and> free wrapped 0x10020 = wrapped\<lparr>curr := 32, trace := [Real_free 0x10000]\<rparr>"
proof -
  have 1: "malloc boot0 0 0xFFFFFFFFFFFFFFE0
     = Inr (0x10020, boot0\<lparr>mem := prepend zero_mem 0x10000 0xFFFFFFFFFFFFFFE0 0\<rparr>)"
    by (simp add: malloc_def Let_def boot0_def alignment_def INIT_HEAP_SIZE_def)
  have 2: "init (boot0\<lparr>mem := prepend zero_mem 0x10000 0xFFFFFFFFFFFFFFE0 0\<rparr>)
          (Some True) (Some True) (Some True) (Some True) = Inr wrapped"
    by (simp add: init_def wrapped_def ready0_def boot0_def)
  have 3: "\<not> in_init_heap wrapped 0x10020"
    by (simp add: in_init_heap_def wrapped_def ready0_def boot0_def)
  have h: "load64 (mem wrapped) (0x10020 - alignment) = 0xFFFFFFFFFFFFFFE0"
    "load64 (mem wrapped) (0x10020 - alignment + 8) = 0"
    "load64 (mem wrapped) (0x10020 - 8) = sentinel"
    using load64_prepend [of zero_mem "0x10000" "0xFFFFFFFFFFFFFFE0" 0]
    by (simp_all add: wrapped_def alignment_def)
  have 4: "free wrapped 0x10020 = wrapped\<lparr>curr := 32, trace := [Real_free 0x10000]\<rparr>"
    using free_real [of "0x10020" wrapped, OF _ 3] h
    by (simp add: wrapped_def ready0_def boot0_def dec_count_def emit_def alignment_def)
  from 1 2 3 4 show ?thesis by blast
qed

section \<open>The paths, read off a result\<close>

lemma malloc_cases:
  assumes "malloc st r sz = Inr (p, st')"
  obtains (zero) "sz = 0" "st' = st"
  | (real) "sz \<noteq> 0" "real_malloc st" "r \<noteq> 0"
      "st' = (inc_count sz (emit (Real_malloc (alignment + sz)) st))\<lparr>mem := prepend (mem st) r sz 0\<rparr>"
  | (boot) "sz \<noteq> 0" "\<not> real_malloc st"
      "st' = st\<lparr>init_heap_use := init_heap_use st + (alignment + sz),
                mem := prepend (mem st) (init_heap st + init_heap_use st) sz 0\<rparr>"
  using assms by (auto simp add: malloc_def Let_def split: if_splits)

lemma aligned_alloc_cases:
  assumes "aligned_alloc st r al sz = Inr (p, st')"
  obtains (zero) "sz = 0" "st' = st"
  | (real) e where "sz \<noteq> 0" "real_aligned_alloc st" "r \<noteq> 0"
      "st' = (inc_count sz (emit (Real_aligned_alloc al (sz + alignment + e)) st))
               \<lparr>mem := prepend (mem st) (r + e) sz e\<rparr>"
proof (cases "sz = 0")
  case True
  with assms have "st' = st" by (simp add: aligned_alloc_def)
  with True show ?thesis by (rule zero)
next
  case False
  have ra: "real_aligned_alloc st"
    using assms False by (auto simp add: aligned_alloc_def split: if_splits)
  have r: "r \<noteq> 0"
    using assms False ra by (auto simp add: aligned_alloc_def Let_def split: if_splits)
  from aligned_alloc_real [OF False ra r, of al] assms
  have "st' = (inc_count sz (emit (Real_aligned_alloc al
                 (sz + alignment + (if alignment \<le> al then al - alignment else 0))) st))
               \<lparr>mem := prepend (mem st) (r + (if alignment \<le> al then al - alignment else 0)) sz
                         (if alignment \<le> al then al - alignment else 0)\<rparr>"
    by simp
  with False ra r show ?thesis by (rule real)
qed

lemma realloc_real_fails:
  assumes "\<not> in_init_heap st p" "sz \<noteq> 0" "p \<noteq> 0" "\<not> real_realloc st \<or> r = 0"
  shows "realloc st r moved p sz = Inl Null_deref"
proof -
  have step: "realloc st r moved p sz =
     (let b = p - alignment;
             st1 = (if load64 (mem st) (b + alignment - 8) \<noteq> sentinel
                    then emit (Stderr (Free_no_sentinel b)) st else st);
             oldsize = load64 (mem st1) b;
             st2 = st1\<lparr>mem := store64 (mem st1) (b + 8) 0\<rparr>;
             extra_alignment = 0;
             st3 = inc_count sz (dec_count oldsize st2)
         in if \<not> real_realloc st3 then Inl Null_deref
            else
              (let st4 = emit (Real_realloc b (sz + alignment + extra_alignment)) st3;
                   newptr = r;
                   st5 = (if newptr = b then st4
                          else st4\<lparr>mem := memcpy (mem st4) newptr b moved\<rparr>)
               in if newptr = 0 then Inl Null_deref
                  else Inr (newptr + alignment + extra_alignment,
                            st5\<lparr>mem := store64 (mem st5) newptr sz\<rparr>)))"
    unfolding realloc_def using assms(1-3) by (simp only: if_False)
  show ?thesis
    unfolding step Let_def using assms(4)
    by (cases "load64 (mem st) (p - alignment + alignment - 8) = sentinel") auto
qed

lemma realloc_init_heap_grow:
  assumes "in_init_heap st p" "\<not> sz \<le> load64 (mem st) (p - alignment)"
  shows "realloc st r moved p sz =
     (case malloc (if load64 (mem st) (p - 8) \<noteq> sentinel
                   then emit (Stderr (Realloc_no_sentinel (p - alignment))) st else st) r sz of
        Inl e \<Rightarrow> Inl e
      | Inr (newptr, st2) \<Rightarrow>
          Inr (newptr,
               free (st2\<lparr>mem := memcpy (mem st2) newptr p (load64 (mem st) (p - alignment))\<rparr>) p))"
proof -
  have "realloc st r moved p sz =
     (let b = p - alignment;
             st1 = (if load64 (mem st) (b + alignment - 8) \<noteq> sentinel
                    then emit (Stderr (Realloc_no_sentinel b)) st else st);
             oldsize = load64 (mem st1) b
         in if sz \<le> oldsize
            then Inr (b + alignment, st1\<lparr>mem := store64 (mem st1) b sz\<rparr>)
            else
              (let p0 = b + alignment
               in case malloc st1 r sz of
                    Inl e \<Rightarrow> Inl e
                  | Inr (newptr, st2) \<Rightarrow>
                      Inr (newptr, free (st2\<lparr>mem := memcpy (mem st2) newptr p0 oldsize\<rparr>) p0)))"
    unfolding realloc_def using assms(1) by (simp only: if_True)
  then show ?thesis
    unfolding Let_def sentinel_addr using assms(2)
    by (cases "load64 (mem st) (p - 8) = sentinel") (simp_all split: sum.splits)
qed


lemma free_cases:
  obtains (noop) "free st q = st"
  | (unresolved) "\<not> real_free st" "free st q = emit (Stderr (Free_without_real_free q)) st"
  | (real) "q \<noteq> 0" "\<not> in_init_heap st q" "real_free st"
      "free st q =
         emit (Real_free (q - alignment - load64 (mem st) (q - alignment + 8)))
           (dec_count (load64 (mem st) (q - alignment))
              (if load64 (mem st) (q - 8) \<noteq> sentinel
               then emit (Stderr (Free_no_sentinel (q - alignment))) st else st))"
proof (cases "q = 0 \<or> in_init_heap st q")
  case True
  then have "free st q = st" by (rule free_noop)
  then show ?thesis by (rule noop)
next
  case False
  show ?thesis
  proof (cases "real_free st")
    case True
    with False free_real [of q st] show ?thesis by (intro real) simp_all
  next
    case nf: False
    with False have "free st q = emit (Stderr (Free_without_real_free q)) st"
      by (simp add: free_def)
    with nf show ?thesis by (rule unresolved)
  qed
qed

section \<open>Sentinel mismatch\<close>





section \<open>The invariant \<open>current \<le> peak\<close>\<close>

lemma smax_ge: "sint a \<le> sint (smax a b)" "sint b \<le> sint (smax a b)"
  by (simp_all add: smax_def)

lemma sint_sub_benign:
  fixes c d :: "64 word"
  assumes "0 \<le> sint d" "- (2 ^ 63) \<le> sint c - sint d"
  shows "sint (c - d) \<le> sint c"
proof -
  have "sint c < 2 ^ 63" using sint_lt [of c] by simp
  then have "sint c - sint d < 2 ^ 63" using assms(1) by linarith
  then have "signed_take_bit 63 (sint c - sint d) = sint c - sint d"
    using assms(2) by (intro signed_take_bit_int_eq_self) simp_all
  then have "sint (c - d) = sint c - sint d"
    using sint_word_ariths(2) [of c d] by simp
  then show ?thesis using assms(1) by simp
qed

lemma inv_malloc:
  assumes "sint (curr st) \<le> sint (peak st)" "malloc st r sz = Inr (p, st')"
  shows "sint (curr st') \<le> sint (peak st') \<and> sint (peak st) \<le> sint (peak st')"
  using assms(2)
  by (cases rule: malloc_cases) (use assms(1) in \<open>simp_all add: smax_ge\<close>)

lemma inv_aligned_alloc:
  assumes "sint (curr st) \<le> sint (peak st)" "aligned_alloc st r al sz = Inr (p, st')"
  shows "sint (curr st') \<le> sint (peak st') \<and> sint (peak st) \<le> sint (peak st')"
  using assms(2)
  by (cases rule: aligned_alloc_cases) (use assms(1) in \<open>simp_all add: smax_ge\<close>)

lemma inv_calloc:
  assumes "sint (curr st) \<le> sint (peak st)" "calloc st r nmemb sz = Inr (p, st')"
  shows "sint (curr st') \<le> sint (peak st') \<and> sint (peak st) \<le> sint (peak st')"
proof (cases "sz * nmemb = 0")
  case True
  with assms show ?thesis by (simp add: calloc_def)
next
  case False
  with assms(2) obtain st1 where m: "malloc st r (sz * nmemb) = Inr (p, st1)"
    and s: "st' = st1\<lparr>mem := memset (mem st1) p 0 (sz * nmemb)\<rparr>"
    by (auto simp add: calloc_def Let_def split: sum.splits if_splits)
  from inv_malloc [OF assms(1) m] s show ?thesis by simp
qed

lemma peak_free: "peak (free st q) = peak st"
  by (cases rule: free_cases [of st q]) simp_all

lemma inv_free:
  assumes "sint (curr st) \<le> sint (peak st)"
    and "q = 0 \<or> in_init_heap st q \<or> \<not> real_free st
         \<or> (0 \<le> sint (load64 (mem st) (q - alignment))
            \<and> - (2 ^ 63) \<le> sint (curr st) - sint (load64 (mem st) (q - alignment)))"
  shows "sint (curr (free st q)) \<le> sint (peak (free st q))"
proof (cases rule: free_cases [of st q])
  case noop
  with assms(1) show ?thesis by simp
next
  case unresolved
  with assms(1) show ?thesis by simp
next
  case real
  with assms(2) have b: "0 \<le> sint (load64 (mem st) (q - alignment))"
    "- (2 ^ 63) \<le> sint (curr st) - sint (load64 (mem st) (q - alignment))" by simp_all
  have "sint (curr (free st q)) = sint (curr st - load64 (mem st) (q - alignment))"
    unfolding real(4) by simp
  also have "\<dots> \<le> sint (curr st)" using b by (rule sint_sub_benign)
  finally show ?thesis using assms(1) by (simp add: peak_free)
qed


lemma peak_realloc:
  assumes "realloc st r moved q sz = Inr (p, st')"
  shows "sint (peak st) \<le> sint (peak st')"
proof (cases "in_init_heap st q")
  case True
  show ?thesis
  proof (cases "sz \<le> load64 (mem st) (q - alignment)")
    case le: True
    from realloc_init_heap_shrink [OF True le, of r moved] assms show ?thesis by auto
  next
    case False
    from realloc_init_heap_grow [OF True False, of r moved] assms
    obtain st1 st2 where "malloc st1 r sz = Inr (p, st2)" "peak st1 = peak st"
      "curr st1 = curr st" "peak st' = peak st2"
      by (auto simp add: peak_free split: sum.splits if_splits)
    then show ?thesis by (cases rule: malloc_cases) (simp_all add: smax_ge)
  qed
next
  case out: False
  show ?thesis
  proof (cases "sz = 0")
    case True
    with realloc_zero [OF out, of r moved] assms show ?thesis by (auto simp add: peak_free)
  next
    case sz: False
    show ?thesis
    proof (cases "q = 0")
      case True
      with realloc_null [of st r moved sz] out assms
      have "malloc st r sz = Inr (p, st')" by simp
      then show ?thesis by (cases rule: malloc_cases) (simp_all add: smax_ge)
    next
      case q: False
      from realloc_real_fails [OF out sz q, of r moved] assms
      have "real_realloc st" "r \<noteq> 0" by auto
      from realloc_real [OF out sz q this, of moved] assms
      show ?thesis by (auto simp add: smax_ge)
    qed
  qed
qed

lemma inv_realloc:
  assumes inv: "sint (curr st) \<le> sint (peak st)"
    and res: "realloc st r moved q sz = Inr (p, st')"
    and arena: "in_init_heap st q \<longrightarrow> real_malloc st \<or> \<not> real_free st"
    and zero: "\<not> in_init_heap st q \<and> sz = 0 \<longrightarrow>
         q = 0 \<or> \<not> real_free st
         \<or> (0 \<le> sint (load64 (mem st) (q - alignment))
            \<and> - (2 ^ 63) \<le> sint (curr st) - sint (load64 (mem st) (q - alignment)))"
  shows "sint (curr st') \<le> sint (peak st')"
proof (cases "in_init_heap st q")
  case True
  show ?thesis
  proof (cases "sz \<le> load64 (mem st) (q - alignment)")
    case le: True
    from realloc_init_heap_shrink [OF True le, of r moved] res inv show ?thesis by auto
  next
    case False
    define st1 where "st1 = (if load64 (mem st) (q - 8) \<noteq> sentinel
                   then emit (Stderr (Realloc_no_sentinel (q - alignment))) st else st)"
    have st1: "curr st1 = curr st" "peak st1 = peak st" "real_malloc st1 = real_malloc st"
      "real_free st1 = real_free st" "in_init_heap st1 q"
      using True by (simp_all add: st1_def)
    from realloc_init_heap_grow [OF True False, of r moved] res
    obtain st2 where m: "malloc st1 r sz = Inr (p, st2)"
      and s: "st' = free (st2\<lparr>mem := memcpy (mem st2) p q (load64 (mem st) (q - alignment))\<rparr>) q"
      by (auto simp add: st1_def split: sum.splits)
    from m show ?thesis
    proof (cases rule: malloc_cases)
      case zero
      with s st1 inv show ?thesis by (simp add: free_noop)
    next
      case real
      then have "in_init_heap (st2\<lparr>mem := memcpy (mem st2) p q (load64 (mem st) (q - alignment))\<rparr>) q"
        using st1(5) by simp
      then have "st' = st2\<lparr>mem := memcpy (mem st2) p q (load64 (mem st) (q - alignment))\<rparr>"
        using s by (simp add: free_noop)
      with real show ?thesis by (simp add: smax_ge)
    next
      case boot
      with arena True st1 have nf: "\<not> real_free st2" by simp
      have "curr st2 = curr st" "peak st2 = peak st" using boot st1 by simp_all
      moreover have "curr st' = curr st2 \<and> peak st' = peak st2"
        unfolding s
        by (cases rule: free_cases
              [of "st2\<lparr>mem := memcpy (mem st2) p q (load64 (mem st) (q - alignment))\<rparr>" q])
           (use nf in simp_all)
      ultimately show ?thesis using inv by simp
    qed
  qed
next
  case out: False
  show ?thesis
  proof (cases "sz = 0")
    case True
    with realloc_zero [OF out, of r moved] res have "st' = free st q" by simp
    moreover have "sint (curr (free st q)) \<le> sint (peak (free st q))"
      using inv zero out True by (intro inv_free) auto
    ultimately show ?thesis by simp
  next
    case sz: False
    show ?thesis
    proof (cases "q = 0")
      case True
      with realloc_null [of st r moved sz] out res
      have "malloc st r sz = Inr (p, st')" by simp
      with inv_malloc [OF inv] show ?thesis by blast
    next
      case q: False
      from realloc_real_fails [OF out sz q, of r moved] res
      have "real_realloc st" "r \<noteq> 0" by auto
      from realloc_real [OF out sz q this, of moved] res
      show ?thesis by (auto simp add: smax_ge)
    qed
  qed
qed

lemma overwritten_facts:
  "(0x2020::ptr) \<noteq> 0" "\<not> in_init_heap overwritten 0x2020" "real_free overwritten"
  "load64 (mem overwritten) (0x2020 - alignment) = 0xFFFFFFFFFFFFFFFF"
  "load64 (mem overwritten) (0x2020 - 8) = sentinel"
  "curr overwritten = 8" "peak overwritten = 8" "\<not> callback overwritten"
  using load64_prepend [of zero_mem "0x2000" 8 0]
  by (simp_all add: overwritten_def state_defs load64_store64_same load64_store64_other)

text \<open>
  C7 as stated fails at a \<^verbatim>\<open>free\<close> whose header holds a size that is negative as a
  \<^verbatim>\<open>long long\<close>. After \<^verbatim>\<open>malloc(8)\<close> the ledger has current = peak = 8; with the size field
  overwritten by \<open>0xFFFFFFFFFFFFFFFF\<close> (the sentinel intact), \<^verbatim>\<open>free\<close> subtracts that size:
  current becomes 9 and peak stays 8.
\<close>

theorem current_le_peak_counterexample:
  "malloc ready0 0x2000 8 = Inr (0x2020, overwritten\<lparr>mem := prepend zero_mem 0x2000 8 0\<rparr>)
   \<and> sint (curr overwritten) \<le> sint (peak overwritten)
   \<and> curr (free overwritten 0x2020) = 9 \<and> peak (free overwritten 0x2020) = 8
   \<and> \<not> sint (curr (free overwritten 0x2020)) \<le> sint (peak (free overwritten 0x2020))"
proof -
  have 1: "malloc ready0 0x2000 8 = Inr (0x2020, overwritten\<lparr>mem := prepend zero_mem 0x2000 8 0\<rparr>)"
    by (simp add: malloc_def Let_def overwritten_def ready0_def boot0_def alignment_def
        inc_count_def emit_def)
  have 2: "curr (free overwritten 0x2020) = 9" "peak (free overwritten 0x2020) = 8"
    using free_real [OF overwritten_facts(1,2,3)] overwritten_facts by simp_all
  then have "\<not> sint (curr (free overwritten 0x2020)) \<le> sint (peak (free overwritten 0x2020))"
    by simp
  with 1 2 overwritten_facts show ?thesis by simp
qed

text \<open>
  C7, amended. The counters are read as the signed 64-bit values the source declares. From a
  state with \<open>current \<le> peak\<close>: the invariant holds again after every \<^verbatim>\<open>malloc\<close>,
  \<^verbatim>\<open>aligned_alloc\<close> and \<^verbatim>\<open>calloc\<close> that returns; after \<^verbatim>\<open>free(q)\<close> it holds whenever the call
  is benign (it does not reach the ledger, or the decoded size is non-negative and its
  subtraction does not wrap); after \<^verbatim>\<open>realloc(q, sz)\<close> it holds when, for \<open>q\<close> outside the
  bootstrap arena and \<open>sz = 0\<close>, the \<^verbatim>\<open>free\<close> it performs is benign, and, for \<open>q\<close> inside the
  arena, the real \<^verbatim>\<open>malloc\<close> is resolved or the real \<^verbatim>\<open>free\<close> is not. Peak never decreases in
  any of these operations. \<^verbatim>\<open>malloc_count_reset_peak\<close> leaves current alone and makes
  \<^verbatim>\<open>malloc_count_peak() == malloc_count_current()\<close>.
\<close>

theorem current_le_peak_preserved:
  assumes inv: "sint (curr st) \<le> sint (peak st)"
  shows
   "(\<forall>p st'. malloc st r sz = Inr (p, st') \<longrightarrow>
        sint (curr st') \<le> sint (peak st') \<and> sint (peak st) \<le> sint (peak st'))
  \<and> (\<forall>p st'. aligned_alloc st r al sz = Inr (p, st') \<longrightarrow>
        sint (curr st') \<le> sint (peak st') \<and> sint (peak st) \<le> sint (peak st'))
  \<and> (\<forall>p st'. calloc st r nmemb sz = Inr (p, st') \<longrightarrow>
        sint (curr st') \<le> sint (peak st') \<and> sint (peak st) \<le> sint (peak st'))
  \<and> (\<forall>p st'. realloc st r moved q sz = Inr (p, st') \<longrightarrow>
        sint (peak st) \<le> sint (peak st')
        \<and> ((in_init_heap st q \<longrightarrow> real_malloc st \<or> \<not> real_free st)
            \<and> (\<not> in_init_heap st q \<and> sz = 0 \<longrightarrow> benign_free st q)
            \<longrightarrow> sint (curr st') \<le> sint (peak st')))
  \<and> peak (free st q) = peak st
  \<and> (benign_free st q \<longrightarrow> sint (curr (free st q)) \<le> sint (peak (free st q)))
  \<and> malloc_count_peak (malloc_count_reset_peak st)
      = malloc_count_current (malloc_count_reset_peak st)
  \<and> malloc_count_current (malloc_count_reset_peak st) = malloc_count_current st"
proof (intro conjI allI impI)
  fix p st' assume "malloc st r sz = Inr (p, st')"
  from inv_malloc [OF inv this]
  show "sint (curr st') \<le> sint (peak st')" "sint (peak st) \<le> sint (peak st')" by simp_all
next
  fix p st' assume "aligned_alloc st r al sz = Inr (p, st')"
  from inv_aligned_alloc [OF inv this]
  show "sint (curr st') \<le> sint (peak st')" "sint (peak st) \<le> sint (peak st')" by simp_all
next
  fix p st' assume "calloc st r nmemb sz = Inr (p, st')"
  from inv_calloc [OF inv this]
  show "sint (curr st') \<le> sint (peak st')" "sint (peak st) \<le> sint (peak st')" by simp_all
next
  fix p st' assume res: "realloc st r moved q sz = Inr (p, st')"
  then show "sint (peak st) \<le> sint (peak st')" by (rule peak_realloc)
  assume "(in_init_heap st q \<longrightarrow> real_malloc st \<or> \<not> real_free st)
            \<and> (\<not> in_init_heap st q \<and> sz = 0 \<longrightarrow> benign_free st q)"
  then show "sint (curr st') \<le> sint (peak st')"
    by (intro inv_realloc [OF inv res]) (auto simp add: benign_free_def)
next
  show "peak (free st q) = peak st" by (rule peak_free)
next
  assume "benign_free st q"
  then show "sint (curr (free st q)) \<le> sint (peak (free st q))"
    by (intro inv_free [OF inv]) (simp add: benign_free_def)
next
  show "malloc_count_peak (malloc_count_reset_peak st)
      = malloc_count_current (malloc_count_reset_peak st)"
    by (simp add: malloc_count_peak_def malloc_count_current_def malloc_count_reset_peak_def)
  show "malloc_count_current (malloc_count_reset_peak st) = malloc_count_current st"
    by (simp add: malloc_count_current_def malloc_count_reset_peak_def)
qed

theorem current_le_peak_preserved_witness:
  "sint (curr smashed) \<le> sint (peak smashed)
   \<and> benign_free smashed 0x2020
   \<and> sint (curr (free smashed 0x2020)) \<le> sint (peak (free smashed 0x2020))
   \<and> peak (free smashed 0x2020) = peak smashed
   \<and> (\<exists>p st'. malloc smashed 0x3000 50 = Inr (p, st')
         \<and> sint (curr st') \<le> sint (peak st') \<and> sint (peak smashed) \<le> sint (peak st'))
   \<and> malloc_count_peak (malloc_count_reset_peak smashed)
       = malloc_count_current (malloc_count_reset_peak smashed)"
proof -
  have i: "sint (curr smashed) \<le> sint (peak smashed)" by (simp add: smashed_facts)
  have b: "benign_free smashed 0x2020" by (simp add: benign_free_def smashed_facts)
  obtain p st' where m: "malloc smashed 0x3000 50 = Inr (p, st')"
    by (simp add: malloc_def Let_def smashed_def state_defs)
  from current_le_peak_preserved [OF i, of "0x3000" 50 _ _ _ "0x2020"] i b m
  show ?thesis by blast
qed

section \<open>Headers that do not overlap\<close>




section \<open>Sequences of \<^verbatim>\<open>malloc\<close> and \<^verbatim>\<open>free\<close> calls\<close>











end
